theory Spec2Isabelle
  imports Main "HOL-Library.Sublist"
begin

text \<open>
  A model of the webpack plugin of plugin-web-update-notification
  (\<^verbatim>\<open>packages/webpack-plugin/src/index.ts\<close>): the two functions that inject the
  notification assets into the entry HTML, and the two hooks that \<open>apply\<close> registers, one
  emitting the manifest, the stylesheet and the script, one rewriting the entry file.
\<close>

section \<open>Strings and the string primitives of the host language\<close>

text \<open>
  The plugin is TypeScript. Its strings are modelled as \<^typ>\<open>string\<close>, read as the UTF-8
  bytes of the text. Every marker and every replacement pattern the plugin uses is plain
  ASCII, and an ASCII byte never occurs inside a multi-byte UTF-8 sequence, so searching
  and splicing bytes finds the same places as searching and splicing UTF-16 code units.

  \<open>str.replace(searchValue, replaceValue)\<close> with two strings replaces the first occurrence
  of \<open>searchValue\<close> only, and it does not insert \<open>replaceValue\<close> as it is: ECMAScript's
  GetSubstitution expands \<open>$$\<close>, \<open>$&\<close>, \<open>$`\<close> and \<open>$'\<close> in it. With a string pattern there
  are no captures, so \<open>$1\<close>..\<open>$99\<close> and \<open>$<\<close> stay as they are written.
\<close>

fun indexOf :: "string \<Rightarrow> string \<Rightarrow> nat option" where
  "indexOf [] searchString = (if searchString = [] then Some 0 else None)"
| "indexOf (c # cs) searchString =
     (if prefix searchString (c # cs) then Some 0
      else map_option Suc (indexOf cs searchString))"

fun getSubstitution :: "string \<Rightarrow> string \<Rightarrow> nat \<Rightarrow> string \<Rightarrow> string" where
  "getSubstitution matched str position [] = []"
| "getSubstitution matched str position [c] = [c]"
| "getSubstitution matched str position (c # d # rest) =
     (if c = CHR ''$'' \<and> d = CHR ''$''
        then CHR ''$'' # getSubstitution matched str position rest
      else if c = CHR ''$'' \<and> d = CHR 0x60
        then take position str @ getSubstitution matched str position rest
      else if c = CHR ''$'' \<and> d = CHR ''&''
        then matched @ getSubstitution matched str position rest
      else if c = CHR ''$'' \<and> d = CHR 0x27
        then drop (position + length matched) str @ getSubstitution matched str position rest
      else c # getSubstitution matched str position (d # rest))"

definition replace :: "string \<Rightarrow> string \<Rightarrow> string \<Rightarrow> string" where
  "replace str searchValue replaceValue =
     (case indexOf str searchValue of
        None \<Rightarrow> str
      | Some position \<Rightarrow>
          take position str
          @ getSubstitution searchValue str position replaceValue
          @ drop (position + length searchValue) str)"

text \<open>JavaScript truthiness of an optional string, of an optional boolean, and \<open>a || b\<close>.\<close>

definition truthy_string :: "string option \<Rightarrow> bool" where
  "truthy_string v = (case v of None \<Rightarrow> False | Some s \<Rightarrow> s \<noteq> [])"

definition truthy_bool :: "bool option \<Rightarrow> bool" where
  "truthy_bool v = (case v of None \<Rightarrow> False | Some b \<Rightarrow> b)"

definition or_else :: "string option \<Rightarrow> string \<Rightarrow> string" where
  "or_else v d = (case v of None \<Rightarrow> d | Some s \<Rightarrow> if s = [] then d else s)"

section \<open>Options, the core package and the host\<close>

text \<open>
  \<open>Options\<close> as the plugin reads them; every field is optional in the source.
  \<open>passThrough\<close> stands for the remaining fields, which only the script generator reads.
\<close>

record options =
  versionType :: "string option"
  customVersion :: "string option"
  hiddenDefaultNotification :: "bool option"
  customNotificationHTML :: "string option"
  injectFileBase :: "string option"
  silence :: "bool option"
  microApp :: "bool option"
  indexHtmlFilePath :: "string option"
  passThrough :: "(string \<times> string) list"

text \<open>
  Exceptions: two of Node's file system errors by name, any other one as \<open>SystemError\<close>
  with its code and path, and the error the version resolver may raise.
\<close>

datatype exn =
  ENOENT string | EISDIR string | SystemError string string | ConfigurationError string

text \<open>
  What the version resolver reads besides its arguments: the state of the source tree and
  of the build environment (the commit that is checked out, the clock), by an identifier.
\<close>

datatype build_state = BuildState string

text \<open>
  The package \<open>@plugin-web-update-notification/core\<close> is imported by the plugin and is not
  part of the sources at hand. Its five constants and five functions are parameters of the
  model, collected in one record. The two generators and the digest are functions of their
  arguments, as the specification describes them. \<open>getVersion\<close> also reads the state of
  the build, and may raise.
\<close>

record core =
  DIRECTORY_NAME :: string
  INJECT_SCRIPT_FILE_NAME :: string
  INJECT_STYLE_FILE_NAME :: string
  JSON_FILE_NAME :: string
  NOTIFICATION_ANCHOR_CLASS_NAME :: string
  generateJSONFileContent :: "string \<Rightarrow> bool option \<Rightarrow> string"
  generateJsFileContent :: "string \<Rightarrow> string \<Rightarrow> options \<Rightarrow> string"
  getFileHash :: "string \<Rightarrow> string"
  getVersion :: "build_state \<Rightarrow> string option \<Rightarrow> string option \<Rightarrow> exn + string"
  get__Dirname :: string

text \<open>What the plugin reads of webpack's compiler object.\<close>

record compiler =
  publicPath :: "string option"
  outputPath :: string

text \<open>
  Node's runtime as the plugin uses it, taken as parameters: \<open>path.resolve\<close>, and the
  decoding of a file's bytes under the encoding \<open>'utf8'\<close>. Strings being modelled by their
  UTF-8 bytes, \<open>utf8\<close> maps the bytes of a file to the UTF-8 bytes of the decoded text: a
  well-formed file is read as it is, an ill-formed sequence is read as U+FFFD. Writing a
  string writes its UTF-8 bytes, that is the model's string itself.
\<close>

record node =
  resolve :: "string list \<Rightarrow> string"
  utf8 :: "string \<Rightarrow> string"

text \<open>
  Node's file system, as far as \<open>accessSync\<close>, \<open>readFileSync\<close> and \<open>writeFileSync\<close> see it,
  and the console. A file has its bytes and, for reading and for writing, the code of the
  error that the operation raises on it, if it raises one (\<open>EACCES\<close> on a file without the
  permission, \<open>EIO\<close>, \<open>ENOSPC\<close>, ...).
\<close>

datatype fs_entry =
  File (bytes: string) (read_fault: "string option") (write_fault: "string option")
| Directory

type_synonym filesystem = "string \<rightharpoonup> fs_entry"

type_synonym assets = "string \<rightharpoonup> string"

datatype log_entry = LogError exn | LogMessage string

record world =
  files :: filesystem
  console :: "log_entry list"

text \<open>\<open>accessSync(path, constants.F_OK)\<close>: the path exists.\<close>

definition accessSync :: "filesystem \<Rightarrow> string \<Rightarrow> exn + unit" where
  "accessSync fs path = (case fs path of None \<Rightarrow> Inl (ENOENT path) | Some _ \<Rightarrow> Inr ())"

text \<open>\<open>readFileSync(path, 'utf8')\<close>: the decoded text of the file.\<close>

definition readFileSync :: "node \<Rightarrow> filesystem \<Rightarrow> string \<Rightarrow> exn + string" where
  "readFileSync node fs path =
     (case fs path of
        None \<Rightarrow> Inl (ENOENT path)
      | Some Directory \<Rightarrow> Inl (EISDIR path)
      | Some (File b (Some code) _) \<Rightarrow> Inl (SystemError code path)
      | Some (File b None _) \<Rightarrow> Inr (utf8 node b))"

text \<open>\<open>writeFileSync(path, content)\<close>: the file is created, or its bytes are replaced.\<close>

definition writeFileSync :: "filesystem \<Rightarrow> string \<Rightarrow> string \<Rightarrow> exn + filesystem" where
  "writeFileSync fs path content =
     (case fs path of
        None \<Rightarrow> Inr (fs(path \<mapsto> File content None None))
      | Some Directory \<Rightarrow> Inl (EISDIR path)
      | Some (File b r (Some code)) \<Rightarrow> Inl (SystemError code path)
      | Some (File b r None) \<Rightarrow> Inr (fs(path \<mapsto> File content r None)))"

section \<open>The plugin\<close>

definition pluginName :: string where
  "pluginName = ''WebUpdateNotificationPlugin''"

subsection \<open>Linked injection\<close>

text \<open>
  \<open>injectPluginHtml\<close>, lines 36 to 60. The imported constants come with \<open>core\<close>; the
  destructured \<open>{ cssFileHash, jsFileHash }\<close> are the two arguments \<open>css_hash\<close> and
  \<open>js_hash\<close>. Each local constant and each template literal of the source is a
  definition of its own.
\<close>

definition versionScript :: "string \<Rightarrow> string" where
  "versionScript version =
     ''<script>window.pluginWebUpdateNotice_version = '' @ [CHR 0x27] @ version
     @ [CHR 0x27] @ '';</script>''"

text \<open>\<open>injectFileBase = '/'\<close> in the destructuring: the default applies to \<open>undefined\<close> only.\<close>

definition fileBase :: "options \<Rightarrow> string" where
  "fileBase opts = (case injectFileBase opts of None \<Rightarrow> ''/'' | Some b \<Rightarrow> b)"

definition cssLinkHtml :: "core \<Rightarrow> options \<Rightarrow> string \<Rightarrow> string" where
  \<open>cssLinkHtml core opts css_hash =
     (if truthy_string (customNotificationHTML opts) \<or> truthy_bool (hiddenDefaultNotification opts)
      then []
      else ''<link rel="stylesheet" href="'' @ fileBase opts @ DIRECTORY_NAME core @ ''/''
           @ INJECT_STYLE_FILE_NAME core @ ''.'' @ css_hash @ ''.css">'')\<close>

definition scriptSrcHtml :: "core \<Rightarrow> options \<Rightarrow> string \<Rightarrow> string" where
  \<open>scriptSrcHtml core opts js_hash =
     ''<script src="'' @ fileBase opts @ DIRECTORY_NAME core @ ''/''
     @ INJECT_SCRIPT_FILE_NAME core @ ''.'' @ js_hash @ ''.js"></script>''\<close>

text \<open>The template literal that replaces \<open><head>\<close> in linked mode.\<close>

definition linkedHead :: "core \<Rightarrow> string \<Rightarrow> options \<Rightarrow> string \<Rightarrow> string \<Rightarrow> string" where
  "linkedHead core version opts css_hash js_hash =
     ''<head>\<newline>    '' @ cssLinkHtml core opts css_hash
     @ ''\<newline>    '' @ scriptSrcHtml core opts js_hash
     @ ''\<newline>    '' @ versionScript version"

text \<open>The template literal that replaces \<open></body>\<close>, in both modes.\<close>

definition anchorHtml :: "core \<Rightarrow> string" where
  \<open>anchorHtml core = ''<div class="'' @ NOTIFICATION_ANCHOR_CLASS_NAME core @ ''"></div>''\<close>

definition anchorBody :: "core \<Rightarrow> string" where
  "anchorBody core = anchorHtml core @ ''</body>''"

definition injectPluginHtml ::
  "core \<Rightarrow> string \<Rightarrow> string \<Rightarrow> options \<Rightarrow> string \<Rightarrow> string \<Rightarrow> string" where
  "injectPluginHtml core html version opts css_hash js_hash =
     (let res = replace html ''<head>'' (linkedHead core version opts css_hash js_hash)
      in if \<not> truthy_bool (hiddenDefaultNotification opts)
         then replace res ''</body>'' (anchorBody core)
         else res)"

subsection \<open>Inline injection\<close>

text \<open>
  \<open>injectPluginHTMLInline\<close>, lines 72 to 102, with \<open>{ injectStyleContent,
  injectScriptContent }\<close> as the arguments \<open>style_content\<close> and \<open>script_content\<close>.
\<close>

definition pluginStyle :: "options \<Rightarrow> string \<Rightarrow> string" where
  "pluginStyle opts style_content =
     (if truthy_string (customNotificationHTML opts) \<or> truthy_bool (hiddenDefaultNotification opts)
      then []
      else ''<style>'' @ style_content @ ''</style>'')"

definition pluginScript :: "string \<Rightarrow> string" where
  "pluginScript script_content = ''<script>'' @ script_content @ ''</script>''"

definition inlineHead :: "string \<Rightarrow> options \<Rightarrow> string \<Rightarrow> string \<Rightarrow> string" where
  "inlineHead version opts style_content script_content =
     ''<head>\<newline>        '' @ pluginStyle opts style_content
     @ ''\<newline>        '' @ pluginScript script_content
     @ ''\<newline>        '' @ versionScript version"

definition injectPluginHTMLInline ::
  "core \<Rightarrow> string \<Rightarrow> string \<Rightarrow> options \<Rightarrow> string \<Rightarrow> string \<Rightarrow> string" where
  "injectPluginHTMLInline core html version opts style_content script_content =
     (let res = replace html ''<head>'' (inlineHead version opts style_content script_content)
      in if \<not> truthy_bool (hiddenDefaultNotification opts)
         then replace res ''</body>'' (anchorBody core)
         else res)"

subsection \<open>The plugin's two hooks\<close>

text \<open>
  \<open>WebUpdateNotificationPlugin.apply\<close>, lines 111 to 190. The four variables that it
  shares between its hooks:
\<close>

record closure =
  jsFileHash :: string
  cssFileHash :: string
  injectScriptContent :: string
  injectStyleContent :: string

definition initial_closure :: closure where
  "initial_closure =
     \<lparr>jsFileHash = [], cssFileHash = [], injectScriptContent = [], injectStyleContent = []\<rparr>"

definition jsonAssetName :: "core \<Rightarrow> string" where
  "jsonAssetName core = DIRECTORY_NAME core @ ''/'' @ JSON_FILE_NAME core @ ''.json''"

definition styleAssetName :: "core \<Rightarrow> string \<Rightarrow> string" where
  "styleAssetName core hash =
     DIRECTORY_NAME core @ ''/'' @ INJECT_STYLE_FILE_NAME core @ ''.'' @ hash @ ''.css''"

definition scriptAssetName :: "core \<Rightarrow> string \<Rightarrow> string" where
  "scriptAssetName core hash =
     DIRECTORY_NAME core @ ''/'' @ INJECT_SCRIPT_FILE_NAME core @ ''.'' @ hash @ ''.js''"

definition styleTemplatePath :: "core \<Rightarrow> string" where
  "styleTemplatePath core = get__Dirname core @ ''/'' @ INJECT_STYLE_FILE_NAME core @ ''.css''"

definition scriptTemplatePath :: "core \<Rightarrow> node \<Rightarrow> string" where
  "scriptTemplatePath core node =
     resolve node [get__Dirname core @ ''/'' @ INJECT_SCRIPT_FILE_NAME core @ ''.js'']"

text \<open>
  The start of \<open>apply\<close>: the default of \<open>injectFileBase\<close> is written into the options, and
  the version is resolved once.
\<close>

definition resolveOptions :: "compiler \<Rightarrow> options \<Rightarrow> options" where
  "resolveOptions compiler opts =
     (if injectFileBase opts = None
      then opts\<lparr>injectFileBase :=
             Some (case publicPath compiler of Some p \<Rightarrow> p | None \<Rightarrow> ''/'')\<rparr>
      else opts)"

definition resolveVersion :: "core \<Rightarrow> build_state \<Rightarrow> options \<Rightarrow> exn + string" where
  "resolveVersion core state opts =
     (if versionType opts = Some ''custom''
      then getVersion core state (versionType opts) (customVersion opts)
      else getVersion core state (versionType opts) None)"

text \<open>
  The \<open>emit\<close> hook, lines 136 to 168, in its three steps: the manifest, the stylesheet
  (\<open>emit_style\<close>) and the script (\<open>emit_script\<close>). An asset is the string its \<open>source\<close>
  returns. An exception of \<open>readFileSync\<close> leaves the
  hook, and the build with it.
\<close>

definition emit_style ::
  "core \<Rightarrow> node \<Rightarrow> options \<Rightarrow> filesystem \<Rightarrow> assets \<Rightarrow> closure
     \<Rightarrow> exn + (assets \<times> closure)" where
  "emit_style core node opts fs assets cl =
     (if \<not> truthy_bool (hiddenDefaultNotification opts)
      then (case readFileSync node fs (styleTemplatePath core) of
              Inl e \<Rightarrow> Inl e
            | Inr content \<Rightarrow>
                let cl1 = cl\<lparr>injectStyleContent := content\<rparr>;
                    cl2 = cl1\<lparr>cssFileHash := getFileHash core (injectStyleContent cl1)\<rparr>
                in Inr (assets(styleAssetName core (cssFileHash cl2) \<mapsto> injectStyleContent cl2),
                        cl2))
      else Inr (assets, cl))"

definition emit_script ::
  "core \<Rightarrow> node \<Rightarrow> options \<Rightarrow> string \<Rightarrow> filesystem \<Rightarrow> assets \<Rightarrow> closure
     \<Rightarrow> exn + (assets \<times> closure)" where
  "emit_script core node opts version fs assets cl =
     (case readFileSync node fs (scriptTemplatePath core node) of
        Inl e \<Rightarrow> Inl e
      | Inr template \<Rightarrow>
          let cl1 = cl\<lparr>injectScriptContent := generateJsFileContent core template version opts\<rparr>;
              cl2 = cl1\<lparr>jsFileHash := getFileHash core (injectScriptContent cl1)\<rparr>
          in Inr (assets(scriptAssetName core (jsFileHash cl2) \<mapsto> injectScriptContent cl2),
                  cl2))"

definition emit ::
  "core \<Rightarrow> node \<Rightarrow> options \<Rightarrow> string \<Rightarrow> filesystem \<Rightarrow> assets \<Rightarrow> closure
     \<Rightarrow> exn + (assets \<times> closure)" where
  "emit core node opts version fs assets cl =
     (let jsonFileContent = generateJSONFileContent core version (silence opts);
          assets1 = assets(jsonAssetName core \<mapsto> jsonFileContent)
      in case emit_style core node opts fs assets1 cl of
           Inl e \<Rightarrow> Inl e
         | Inr (assets2, cl2) \<Rightarrow> emit_script core node opts version fs assets2 cl2)"

text \<open>
  The \<open>afterEmit\<close> hook, lines 170 to 189. Everything between \<open>try\<close> and \<open>catch\<close> is \<open>inject_file\<close>; the
  handler logs the exception and a message, and nothing leaves the hook.
\<close>

definition htmlFilePath :: "node \<Rightarrow> compiler \<Rightarrow> options \<Rightarrow> string" where
  "htmlFilePath node compiler opts =
     resolve node [outputPath compiler, or_else (indexHtmlFilePath opts) ''./index.html'']"

definition inject_file ::
  "core \<Rightarrow> node \<Rightarrow> options \<Rightarrow> string \<Rightarrow> closure \<Rightarrow> string \<Rightarrow> filesystem
     \<Rightarrow> exn + filesystem" where
  "inject_file core node opts version cl path fs =
     (case accessSync fs path of
        Inl e \<Rightarrow> Inl e
      | Inr _ \<Rightarrow>
          (case readFileSync node fs path of
             Inl e \<Rightarrow> Inl e
           | Inr html \<Rightarrow>
               writeFileSync fs path
                 (if truthy_bool (microApp opts)
                  then injectPluginHTMLInline core html version opts
                         (injectStyleContent cl) (injectScriptContent cl)
                  else injectPluginHtml core html version opts
                         (cssFileHash cl) (jsFileHash cl))))"

definition notFoundMessage :: "string \<Rightarrow> string" where
  "notFoundMessage path =
     pluginName @ '' failed to inject the plugin into the HTML file. index.html''
     @ [CHR 0xEF, CHR 0xBC, CHR 0x88] @ path @ [CHR 0xEF, CHR 0xBC, CHR 0x89]
     @ '' not found.''"

definition afterEmit ::
  "core \<Rightarrow> node \<Rightarrow> compiler \<Rightarrow> options \<Rightarrow> string \<Rightarrow> closure \<Rightarrow> world
     \<Rightarrow> world" where
  "afterEmit core node compiler opts version cl w =
     (let path = htmlFilePath node compiler opts
      in case inject_file core node opts version cl path (files w) of
           Inr fs \<Rightarrow> w\<lparr>files := fs\<rparr>
         | Inl error \<Rightarrow>
             w\<lparr>console := console w @ [LogError error, LogMessage (notFoundMessage path)]\<rparr>)"

text \<open>
  One build: \<open>apply\<close>, then the host fires \<open>emit\<close> once and, when its output is on disk,
  \<open>afterEmit\<close> once. \<open>state\<close> is what the version resolver finds when \<open>apply\<close> runs,
  \<open>fs\<close> the file system the emit hook reads the templates from, \<open>w\<close> the world the
  finalize hook finds.
\<close>

definition build ::
  "core \<Rightarrow> node \<Rightarrow> compiler \<Rightarrow> build_state \<Rightarrow> options \<Rightarrow> filesystem \<Rightarrow> assets \<Rightarrow> world
     \<Rightarrow> exn + (assets \<times> closure \<times> world)" where
  "build core node compiler state opts0 fs assets w =
     (let opts = resolveOptions compiler opts0
      in case resolveVersion core state opts of
           Inl e \<Rightarrow> Inl e
         | Inr version \<Rightarrow>
             (case emit core node opts version fs assets initial_closure of
                Inl e \<Rightarrow> Inl e
              | Inr (assets1, cl) \<Rightarrow>
                  Inr (assets1, cl, afterEmit core node compiler opts version cl w)))"

section \<open>Notions used to state the properties\<close>

text \<open>A replacement text without \<open>$\<close> holds no replacement pattern.\<close>

definition dollar_free :: "string \<Rightarrow> bool" where
  "dollar_free s = (CHR ''$'' \<notin> set s)"

text \<open>A text whose first character cannot complete a pattern begun by a \<open>$\<close> before it.\<close>

definition plain_start :: "string \<Rightarrow> bool" where
  "plain_start t =
     (case t of [] \<Rightarrow> True | d # _ \<Rightarrow> d \<notin> {CHR ''$'', CHR 0x60, CHR ''&'', CHR 0x27})"

text \<open>
  Pure insertion at the first occurrence of a token: right after it, or right before it.
  A text without the token is returned as it is.
\<close>

definition insertAfterFirst :: "string \<Rightarrow> string \<Rightarrow> string \<Rightarrow> string" where
  "insertAfterFirst token ins s =
     (case indexOf s token of
        None \<Rightarrow> s
      | Some p \<Rightarrow> take (p + length token) s @ ins @ drop (p + length token) s)"

definition insertBeforeFirst :: "string \<Rightarrow> string \<Rightarrow> string \<Rightarrow> string" where
  "insertBeforeFirst token ins s =
     (case indexOf s token of
        None \<Rightarrow> s
      | Some p \<Rightarrow> take p s @ ins @ drop p s)"

section \<open>A concrete instance\<close>

text \<open>
  Values for the parameters, used where a property is evaluated on a concrete build:
  names for the five constants, and small stand-ins for the functions (a two-digit
  checksum for the digest, the template with a call on the version appended for the
  script generator, a one-field manifest, a version resolver whose hash strategy returns
  the identifier of the build state, \<open>path.resolve\<close> on an absolute directory and a
  relative file, and the identity for the decoding, which is what decoding does on the
  ASCII files of the instance).
\<close>

definition hexDigit :: "nat \<Rightarrow> char" where
  "hexDigit n = ''0123456789abcdef'' ! (n mod 16)"

definition exampleHash :: "string \<Rightarrow> string" where
  "exampleHash s =
     (let n = sum_list (map of_char s) mod 256 in [hexDigit (n div 16), hexDigit n])"

definition exampleJSON :: "string \<Rightarrow> bool option \<Rightarrow> string" where
  \<open>exampleJSON version silent =
     ''{"version":"'' @ version @ ''"''
     @ (if truthy_bool silent then '',"silence":true'' else []) @ ''}''\<close>

definition exampleJs :: "string \<Rightarrow> string \<Rightarrow> options \<Rightarrow> string" where
  \<open>exampleJs template version opts = template @ ''("'' @ version @ ''");''\<close>

text \<open>
  The version resolver of the instance. Modelled from the spec: the custom strategy returns
  the string supplied and raises \<open>ConfigurationError\<close> without one; every other strategy
  returns the identifier of the current state of the source tree and build (the hash of
  the commit in the words of the plugin's own comment on \<open>version\<close>).
\<close>

definition exampleGetVersion ::
  "build_state \<Rightarrow> string option \<Rightarrow> string option \<Rightarrow> exn + string" where
  "exampleGetVersion state strategy val =
     (if strategy = Some ''custom''
      then (case val of
              None \<Rightarrow> Inl (ConfigurationError ''custom version missing'')
            | Some v \<Rightarrow> Inr v)
      else (case state of BuildState identifier \<Rightarrow> Inr identifier))"

fun exampleResolve :: "string list \<Rightarrow> string" where
  "exampleResolve [] = ''/''"
| "exampleResolve [p] = p"
| "exampleResolve (dir # file # _) =
     dir @ ''/'' @ (if prefix ''./'' file then drop 2 file else file)"

definition exampleNode :: node where
  "exampleNode = \<lparr>resolve = exampleResolve, utf8 = (\<lambda>b. b)\<rparr>"

definition exampleState :: build_state where
  "exampleState = BuildState ''a1b2c3d''"

definition exampleCore :: core where
  "exampleCore =
     \<lparr>DIRECTORY_NAME = ''pluginWebUpdateNotice'',
      INJECT_SCRIPT_FILE_NAME = ''webUpdateNoticeInjectScript'',
      INJECT_STYLE_FILE_NAME = ''webUpdateNoticeInjectStyle'',
      JSON_FILE_NAME = ''web_version_by_plugin'',
      NOTIFICATION_ANCHOR_CLASS_NAME = ''plugin-web-update-notice-anchor'',
      generateJSONFileContent = exampleJSON,
      generateJsFileContent = exampleJs,
      getFileHash = exampleHash,
      getVersion = exampleGetVersion,
      get__Dirname = ''/core/dist''\<rparr>"

definition exampleCompiler :: compiler where
  "exampleCompiler = \<lparr>publicPath = Some ''/'', outputPath = ''/app/dist''\<rparr>"

definition exampleOptions :: options where
  "exampleOptions =
     \<lparr>versionType = Some ''custom'', customVersion = Some ''1.2.3'',
      hiddenDefaultNotification = Some False, customNotificationHTML = None,
      injectFileBase = None, silence = None, microApp = None,
      indexHtmlFilePath = None, passThrough = []\<rparr>"

definition exampleHtml :: string where
  "exampleHtml = ''<html><head></head><body></body></html>''"

definition exampleTemplates :: filesystem where
  "exampleTemplates =
     [''/core/dist/webUpdateNoticeInjectStyle.css'' \<mapsto> File ''.a{color:red}'' None None,
      ''/core/dist/webUpdateNoticeInjectScript.js'' \<mapsto> File ''poll'' None None]"

definition exampleWorld :: world where
  "exampleWorld = \<lparr>files = [''/app/dist/index.html'' \<mapsto> File exampleHtml None None], console = []\<rparr>"

text \<open>The options as \<open>apply\<close> leaves them, and what the emit hook yields on the instance.\<close>

definition exampleResolved :: options where
  "exampleResolved = resolveOptions exampleCompiler exampleOptions"

definition exampleEmitted :: assets where
  \<open>exampleEmitted =
     [''pluginWebUpdateNotice/web_version_by_plugin.json'' \<mapsto> ''{"version":"1.2.3"}'',
      ''pluginWebUpdateNotice/webUpdateNoticeInjectStyle.1b.css'' \<mapsto> ''.a{color:red}'',
      ''pluginWebUpdateNotice/webUpdateNoticeInjectScript.79.js'' \<mapsto> ''poll("1.2.3");'']\<close>

definition exampleClosure :: closure where
  \<open>exampleClosure =
     \<lparr>jsFileHash = ''79'', cssFileHash = ''1b'',
      injectScriptContent = ''poll("1.2.3");'', injectStyleContent = ''.a{color:red}''\<rparr>\<close>

text \<open>An output directory that holds the emitted assets and no \<open>index.html\<close>.\<close>

definition exampleNoEntry :: world where
  \<open>exampleNoEntry =
     \<lparr>files =
        [''/app/dist/pluginWebUpdateNotice/web_version_by_plugin.json''
           \<mapsto> File ''{"version":"1.2.3"}'' None None,
         ''/app/dist/pluginWebUpdateNotice/webUpdateNoticeInjectStyle.1b.css''
           \<mapsto> File ''.a{color:red}'' None None,
         ''/app/dist/pluginWebUpdateNotice/webUpdateNoticeInjectScript.79.js''
           \<mapsto> File ''poll("1.2.3");'' None None],
      console = []\<rparr>\<close>


text \<open>The instance with a custom notification configured, and the instance in inline mode.\<close>

definition exampleCustom :: options where
  "exampleCustom = exampleResolved\<lparr>customNotificationHTML := Some ''<b>new version</b>''\<rparr>"

definition exampleMicro :: options where
  "exampleMicro = exampleResolved\<lparr>microApp := Some True\<rparr>"





definition exampleLaterState :: build_state where
  "exampleLaterState = BuildState ''e4f5a6b''"

text \<open>What a build leaves behind: the entry document and the console, if it ended normally.\<close>

definition buildOutcome ::
  "exn + assets \<times> closure \<times> world \<Rightarrow> (fs_entry option \<times> log_entry list) option" where
  "buildOutcome r =
     (case r of
        Inl e \<Rightarrow> None
      | Inr (a, c, w) \<Rightarrow> Some (files w ''/app/dist/index.html'', console w))"

text \<open>The instance in inline mode with a custom version that holds a replacement pattern.\<close>

definition examplePatternOptions :: options where
  "examplePatternOptions =
     exampleOptions\<lparr>customVersion := Some ''1.0$&'', microApp := Some True\<rparr>"

text \<open>
  What a build registers as the script asset, next to the entry document it leaves, if it
  ended normally.
\<close>

definition buildScript ::
  "exn + assets \<times> closure \<times> world \<Rightarrow> (string option \<times> fs_entry option) option" where
  "buildScript r =
     (case r of
        Inl e \<Rightarrow> None
      | Inr (a, c, w) \<Rightarrow>
          Some (a (scriptAssetName exampleCore (jsFileHash c)),
                files w ''/app/dist/index.html''))"


section \<open>Facts about the string primitives\<close>

lemma indexOf_prefix: "indexOf s t = Some p \<Longrightarrow> prefix t (drop p s)"
  by (induction s arbitrary: p) (auto split: if_splits)

lemma indexOf_le: "indexOf s t = Some p \<Longrightarrow> p + length t \<le> length s"
  by (induction s arbitrary: p) (auto split: if_splits dest: prefix_length_le)

lemma indexOf_first: "indexOf s t = Some p \<Longrightarrow> q < p \<Longrightarrow> \<not> prefix t (drop q s)"
proof (induction s arbitrary: p q)
  case Nil
  then show ?case by (simp split: if_splits)
next
  case (Cons c cs)
  show ?case
  proof (cases q)
    case 0
    with Cons.prems show ?thesis by (auto split: if_splits)
  next
    case (Suc q')
    with Cons show ?thesis by (auto split: if_splits)
  qed
qed

lemma indexOf_drop:
  assumes "indexOf s t = Some p"
  shows "drop p s = t @ drop (p + length t) s"
proof -
  from indexOf_prefix [OF assms] obtain r where r: "drop p s = t @ r"
    by (auto simp: prefix_def)
  have "drop (p + length t) s = drop (length t) (drop p s)"
    by (simp add: add.commute)
  also have "\<dots> = r" by (simp add: r)
  finally show ?thesis using r by simp
qed

lemma indexOf_take:
  assumes "indexOf s t = Some p"
  shows "take (p + length t) s = take p s @ t"
proof -
  have "take (p + length t) s = take p s @ take (length t) (drop p s)"
    by (simp add: take_add)
  then show ?thesis by (simp add: indexOf_drop [OF assms])
qed

lemma indexOf_split:
  assumes "indexOf s t = Some p"
  shows "s = take p s @ t @ drop (p + length t) s"
  using indexOf_drop [OF assms] by (metis append_take_drop_id)


lemma getSubstitution_dollar_free:
  "dollar_free r \<Longrightarrow> getSubstitution m s p r = r"
  by (induction m s p r rule: getSubstitution.induct) (auto simp: dollar_free_def)

lemma getSubstitution_prefix:
  "dollar_free pre \<Longrightarrow> getSubstitution m s p (pre @ r) = pre @ getSubstitution m s p r"
proof (induction pre)
  case Nil
  show ?case by simp
next
  case (Cons c pre)
  then have c: "c \<noteq> CHR ''$''" and pre: "dollar_free pre"
    by (auto simp: dollar_free_def)
  show ?case
  proof (cases "pre @ r")
    case Nil
    then show ?thesis by simp
  next
    case (Cons d ds)
    have "getSubstitution m s p (c # d # ds) = c # getSubstitution m s p (d # ds)"
      using c by simp
    then show ?thesis using Cons Cons.IH [OF pre] by (metis append_Cons)
  qed
qed

lemma getSubstitution_suffix:
  "dollar_free t \<Longrightarrow> plain_start t \<Longrightarrow>
   getSubstitution m s p (r @ t) = getSubstitution m s p r @ t"
proof (induction m s p r rule: getSubstitution.induct)
  case (1 m s p)
  then show ?case by (simp add: getSubstitution_dollar_free)
next
  case (2 m s p c)
  show ?case
  proof (cases t)
    case Nil
    then show ?thesis by simp
  next
    case (Cons d ds)
    with 2 have "getSubstitution m s p (d # ds) = d # ds"
      by (simp add: getSubstitution_dollar_free)
    with Cons 2 show ?thesis by (auto simp: plain_start_def)
  qed
next
  case (3 m s p c d rest)
  then show ?case by auto
qed

section \<open>Facts about \<open>replace\<close>\<close>

lemma replace_dollar_free:
  "dollar_free r \<Longrightarrow>
   replace s t r = (case indexOf s t of None \<Rightarrow> s | Some p \<Rightarrow> take p s @ r @ drop (p + length t) s)"
  by (simp add: replace_def getSubstitution_dollar_free split: option.splits)


lemma replace_insert_after:
  assumes "dollar_free t"
  shows "\<exists>X. replace s t (t @ r) = insertAfterFirst t X s"
proof (cases "indexOf s t")
  case None
  then show ?thesis by (simp add: replace_def insertAfterFirst_def)
next
  case (Some p)
  have "replace s t (t @ r) = take p s @ t @ getSubstitution t s p r @ drop (p + length t) s"
    by (simp add: replace_def Some getSubstitution_prefix [OF assms])
  also have "\<dots> = insertAfterFirst t (getSubstitution t s p r) s"
    by (simp add: insertAfterFirst_def Some indexOf_take [OF Some])
  finally show ?thesis by blast
qed

lemma replace_insert_before:
  assumes "dollar_free t" and "plain_start t"
  shows "\<exists>Y. replace s t (r @ t) = insertBeforeFirst t Y s"
proof (cases "indexOf s t")
  case None
  then show ?thesis by (simp add: replace_def insertBeforeFirst_def)
next
  case (Some p)
  have "replace s t (r @ t) = take p s @ getSubstitution t s p r @ t @ drop (p + length t) s"
    by (simp add: replace_def Some getSubstitution_suffix [OF assms])
  also have "\<dots> = insertBeforeFirst t (getSubstitution t s p r) s"
    by (simp add: insertBeforeFirst_def Some indexOf_drop [OF Some])
  finally show ?thesis by blast
qed

lemma subseq_insert: "subseq (a @ b) (a @ X @ b)"
  by (simp add: subseq_append' subseq_drop_many)

lemma subseq_insertAfterFirst: "subseq s (insertAfterFirst t X s)"
proof (cases "indexOf s t")
  case None
  then show ?thesis by (simp add: insertAfterFirst_def)
next
  case (Some p)
  have "subseq (take (p + length t) s @ drop (p + length t) s)
          (take (p + length t) s @ X @ drop (p + length t) s)"
    by (rule subseq_insert)
  then show ?thesis by (simp add: insertAfterFirst_def Some del: subseq_append)
qed

lemma subseq_insertBeforeFirst: "subseq s (insertBeforeFirst t X s)"
proof (cases "indexOf s t")
  case None
  then show ?thesis by (simp add: insertBeforeFirst_def)
next
  case (Some p)
  have "subseq (take p s @ drop p s) (take p s @ X @ drop p s)"
    by (rule subseq_insert)
  then show ?thesis by (simp add: insertBeforeFirst_def Some del: subseq_append)
qed

lemma insertBeforeFirst_Nil: "insertBeforeFirst t [] s = s"
  by (simp add: insertBeforeFirst_def split: option.splits)

lemma linkedHead_head:
  "linkedHead core version opts ch jh = ''<head>'' @ drop 6 (linkedHead core version opts ch jh)"
  by (simp add: linkedHead_def)

lemma inlineHead_head:
  "inlineHead version opts sc jc = ''<head>'' @ drop 6 (inlineHead version opts sc jc)"
  by (simp add: inlineHead_def)

lemma head_token: "dollar_free ''<head>''"
  by (simp add: dollar_free_def)

lemma body_token: "dollar_free ''</body>''" "plain_start ''</body>''"
  by (simp_all add: dollar_free_def plain_start_def)

lemma two_insertions:
  assumes "\<exists>X. res = insertAfterFirst ''<head>'' X html"
      and "out = res \<or> (\<exists>Y. out = insertBeforeFirst ''</body>'' Y res)"
  shows "\<exists>X Y. out = insertBeforeFirst ''</body>'' Y (insertAfterFirst ''<head>'' X html)
               \<and> subseq html out"
proof -
  from assms(1) obtain X where X: "res = insertAfterFirst ''<head>'' X html" by blast
  from assms(2) obtain Y where Y: "out = insertBeforeFirst ''</body>'' Y res"
    using insertBeforeFirst_Nil by metis
  have "subseq html res" by (simp add: X subseq_insertAfterFirst)
  moreover have "subseq res out" by (simp add: Y subseq_insertBeforeFirst)
  ultimately have "subseq html out" by (rule subseq_order.order_trans)
  with X Y show ?thesis by blast
qed

section \<open>Facts about the two injections\<close>

lemma sublist_kept_by_insertion:
  assumes "sublist t (u @ v)" and "u \<noteq> []" and "last u \<notin> set (butlast t)"
  shows "sublist t (u @ X @ v)"
proof -
  from assms(1) obtain x y where xy: "u @ v = x @ t @ y"
    by (auto simp: sublist_def)
  then consider w where "u = x @ w" "w @ v = t @ y" | w where "u @ w = x" "v = w @ t @ y"
    by (auto simp: append_eq_append_conv2)
  then show ?thesis
  proof cases
    case 2
    then have "u @ X @ v = (u @ X @ w) @ t @ y" by simp
    then show ?thesis unfolding sublist_def by blast
  next
    case 1
    from 1(2) consider z where "w = t @ z" "z @ v = y" | z where "w @ z = t" "v = z @ y"
      by (auto simp: append_eq_append_conv2)
    then show ?thesis
    proof cases
      case a: 1
      with 1 have "u @ X @ v = x @ t @ (z @ X @ v)" by simp
      then show ?thesis unfolding sublist_def by blast
    next
      case b: 2
      show ?thesis
      proof (cases "z = []")
        case True
        with b 1 have "u @ X @ v = x @ t @ (X @ v)" by simp
        then show ?thesis unfolding sublist_def by blast
      next
        case z: False
        show ?thesis
        proof (cases "w = []")
          case True
          with b have "u @ X @ v = (u @ X) @ t @ y" by simp
          then show ?thesis unfolding sublist_def by blast
        next
          case w: False
          then have "last u = last w" using 1(1) by simp
          moreover have "butlast t = w @ butlast z"
            using b(1) z by (metis butlast_append)
          ultimately have "last u \<in> set (butlast t)" using w by simp
          with assms(3) show ?thesis by simp
        qed
      qed
    qed
  qed
qed

lemma body_kept_by_head_insertion:
  assumes "sublist ''</body>'' html"
  shows "sublist ''</body>'' (replace html ''<head>'' (''<head>'' @ r))"
proof (cases "indexOf html ''<head>''")
  case None
  with assms show ?thesis by (simp add: replace_def)
next
  case (Some p)
  let ?u = "take p html @ ''<head>''"
  let ?v = "drop (p + length ''<head>'') html"
  let ?X = "getSubstitution ''<head>'' html p r"
  have html: "html = ?u @ ?v" using indexOf_split [OF Some] by simp
  have res: "replace html ''<head>'' (''<head>'' @ r) = ?u @ ?X @ ?v"
    using getSubstitution_prefix [OF head_token, of "''<head>''" html p r]
    by (simp add: replace_def Some)
  have "sublist ''</body>'' (?u @ ?v)" using assms html by simp
  then have "sublist ''</body>'' (?u @ ?X @ ?v)"
    by (rule sublist_kept_by_insertion) simp_all
  then show ?thesis by (simp only: res)
qed

lemma anchorBody_dollar_free:
  "dollar_free (NOTIFICATION_ANCHOR_CLASS_NAME core) \<Longrightarrow> dollar_free (anchorBody core)"
  by (simp add: dollar_free_def anchorBody_def anchorHtml_def)

lemma anchor_step:
  assumes "dollar_free (NOTIFICATION_ANCHOR_CLASS_NAME core)"
  shows "replace res ''</body>'' (anchorBody core) = insertBeforeFirst ''</body>'' (anchorHtml core) res"
proof (cases "indexOf res ''</body>''")
  case None
  then show ?thesis by (simp add: replace_def insertBeforeFirst_def)
next
  case (Some p)
  have "replace res ''</body>'' (anchorBody core)
        = take p res @ anchorBody core @ drop (p + length ''</body>'') res"
    by (simp add: replace_dollar_free [OF anchorBody_dollar_free [OF assms]] Some)
  also have "\<dots> = take p res @ anchorHtml core @ drop p res"
    using indexOf_drop [OF Some] by (simp add: anchorBody_def)
  finally show ?thesis by (simp add: insertBeforeFirst_def Some)
qed

lemma inlineHead_dollar_free:
  "dollar_free version \<Longrightarrow> dollar_free style_content \<Longrightarrow> dollar_free script_content \<Longrightarrow>
   dollar_free (inlineHead version opts style_content script_content)"
  by (simp add: dollar_free_def inlineHead_def pluginStyle_def pluginScript_def versionScript_def)

lemma linkedHead_dollar_free:
  "dollar_free version \<Longrightarrow> dollar_free (fileBase opts) \<Longrightarrow> dollar_free (DIRECTORY_NAME core) \<Longrightarrow>
   dollar_free (INJECT_STYLE_FILE_NAME core) \<Longrightarrow> dollar_free (INJECT_SCRIPT_FILE_NAME core) \<Longrightarrow>
   dollar_free css_hash \<Longrightarrow> dollar_free js_hash \<Longrightarrow>
   dollar_free (linkedHead core version opts css_hash js_hash)"
  by (simp add: dollar_free_def linkedHead_def cssLinkHtml_def scriptSrcHtml_def versionScript_def)

lemma head_inserted:
  assumes "indexOf html ''<head>'' = Some p" and "dollar_free headrep"
  shows "replace html ''<head>'' headrep = take p html @ headrep @ drop (p + 6) html"
  using assms by (simp add: replace_dollar_free eval_nat_numeral)

text \<open>
  Where the texts put into the head template hold no \<open>$\<close>, linked injection inserts the
  template as it is written, right after the first \<open><head>\<close>.
\<close>

lemma linked_injection_shape:
  assumes "indexOf html ''<head>'' = Some p"
      and "dollar_free (linkedHead core version opts css_hash js_hash)"
  shows "injectPluginHtml core html version opts css_hash js_hash
         = (let mid = take p html @ linkedHead core version opts css_hash js_hash
                      @ drop (p + 6) html
            in if truthy_bool (hiddenDefaultNotification opts) then mid
               else replace mid ''</body>'' (anchorBody core))"
  using head_inserted [OF assms] by (simp add: injectPluginHtml_def Let_def)

lemma inline_injection_shape:
  assumes "indexOf html ''<head>'' = Some p"
      and "dollar_free (inlineHead version opts style_content script_content)"
  shows "injectPluginHTMLInline core html version opts style_content script_content
         = (let mid = take p html @ inlineHead version opts style_content script_content
                      @ drop (p + 6) html
            in if truthy_bool (hiddenDefaultNotification opts) then mid
               else replace mid ''</body>'' (anchorBody core))"
  using head_inserted [OF assms] by (simp add: injectPluginHTMLInline_def Let_def)







section \<open>Facts about the emit hook\<close>

lemma style_script_names_differ: "styleAssetName core h \<noteq> scriptAssetName core h'"
proof
  assume "styleAssetName core h = scriptAssetName core h'"
  then have "rev (styleAssetName core h) = rev (scriptAssetName core h')" by simp
  then show False by (simp add: styleAssetName_def scriptAssetName_def)
qed

lemma json_style_names_differ: "jsonAssetName core \<noteq> styleAssetName core h"
proof
  assume "jsonAssetName core = styleAssetName core h"
  then have "rev (jsonAssetName core) = rev (styleAssetName core h)" by simp
  then show False by (simp add: styleAssetName_def jsonAssetName_def)
qed

lemma json_script_names_differ: "jsonAssetName core \<noteq> scriptAssetName core h"
proof
  assume "jsonAssetName core = scriptAssetName core h"
  then have "rev (jsonAssetName core) = rev (scriptAssetName core h)" by simp
  then show False by (simp add: scriptAssetName_def jsonAssetName_def)
qed

lemma emit_style_Inr:
  assumes "emit_style core node opts fs assets cl = Inr (assets', cl')"
  shows "if truthy_bool (hiddenDefaultNotification opts)
         then assets' = assets \<and> cl' = cl
         else readFileSync node fs (styleTemplatePath core) = Inr (injectStyleContent cl')
              \<and> cl' = cl\<lparr>injectStyleContent := injectStyleContent cl',
                         cssFileHash := getFileHash core (injectStyleContent cl')\<rparr>
              \<and> assets' = assets(styleAssetName core (getFileHash core (injectStyleContent cl'))
                                  \<mapsto> injectStyleContent cl')"
  using assms by (auto simp: emit_style_def Let_def split: sum.splits if_splits)

lemma emit_script_Inr:
  assumes "emit_script core node opts version fs assets cl = Inr (assets', cl')"
  shows "(\<exists>template. readFileSync node fs (scriptTemplatePath core node) = Inr template
            \<and> injectScriptContent cl' = generateJsFileContent core template version opts)
         \<and> cl' = cl\<lparr>injectScriptContent := injectScriptContent cl',
                    jsFileHash := getFileHash core (injectScriptContent cl')\<rparr>
         \<and> assets' = assets(scriptAssetName core (getFileHash core (injectScriptContent cl'))
                             \<mapsto> injectScriptContent cl')"
  using assms by (auto simp: emit_script_def Let_def split: sum.splits)

lemma emit_Inr:
  assumes "emit core node opts version fs assets cl = Inr (assets', cl')"
  shows "\<exists>assets2 cl2.
           emit_style core node opts fs
             (assets(jsonAssetName core \<mapsto> generateJSONFileContent core version (silence opts))) cl
             = Inr (assets2, cl2)
           \<and> emit_script core node opts version fs assets2 cl2 = Inr (assets', cl')"
  using assms by (auto simp: emit_def Let_def split: sum.splits)

lemma emit_Inr_facts:
  assumes "emit core node opts version fs assets cl = Inr (assets', cl')"
  shows "jsFileHash cl' = getFileHash core (injectScriptContent cl')
       \<and> assets' (scriptAssetName core (getFileHash core (injectScriptContent cl')))
           = Some (injectScriptContent cl')
       \<and> (\<not> truthy_bool (hiddenDefaultNotification opts) \<longrightarrow>
            cssFileHash cl' = getFileHash core (injectStyleContent cl')
          \<and> assets' (styleAssetName core (getFileHash core (injectStyleContent cl')))
              = Some (injectStyleContent cl'))
       \<and> (\<forall>name. assets' name \<noteq> assets name \<longrightarrow>
            name = jsonAssetName core
          \<or> name = scriptAssetName core (getFileHash core (injectScriptContent cl'))
          \<or> (\<not> truthy_bool (hiddenDefaultNotification opts)
             \<and> name = styleAssetName core (getFileHash core (injectStyleContent cl'))))"
proof -
  from emit_Inr [OF assms] obtain assets2 cl2 where
    style: "emit_style core node opts fs
             (assets(jsonAssetName core \<mapsto> generateJSONFileContent core version (silence opts))) cl
             = Inr (assets2, cl2)"
    and script: "emit_script core node opts version fs assets2 cl2 = Inr (assets', cl')"
    by blast
  note s = emit_style_Inr [OF style]
  note j = emit_script_Inr [OF script]
  from j have cl': "cl' = cl2\<lparr>injectScriptContent := injectScriptContent cl',
                    jsFileHash := getFileHash core (injectScriptContent cl')\<rparr>"
    and a': "assets' = assets2(scriptAssetName core (getFileHash core (injectScriptContent cl'))
                             \<mapsto> injectScriptContent cl')"
    by blast+
  have js: "jsFileHash cl' = getFileHash core (injectScriptContent cl')"
    by (subst cl') simp
  have same_style: "injectStyleContent cl' = injectStyleContent cl2" "cssFileHash cl' = cssFileHash cl2"
    by (subst cl', simp)+
  show ?thesis
  proof (cases "truthy_bool (hiddenDefaultNotification opts)")
    case True
    with s have "assets2 = assets(jsonAssetName core \<mapsto> generateJSONFileContent core version (silence opts))"
      by simp
    with a' js True show ?thesis by auto
  next
    case False
    with s have c2: "cl2 = cl\<lparr>injectStyleContent := injectStyleContent cl2,
                         cssFileHash := getFileHash core (injectStyleContent cl2)\<rparr>"
      and a2: "assets2 = (assets(jsonAssetName core \<mapsto> generateJSONFileContent core version (silence opts)))
                 (styleAssetName core (getFileHash core (injectStyleContent cl2))
                                  \<mapsto> injectStyleContent cl2)"
      by simp_all
    have css: "cssFileHash cl2 = getFileHash core (injectStyleContent cl2)"
      by (subst c2) simp
    have "assets' (styleAssetName core (getFileHash core (injectStyleContent cl2)))
            = Some (injectStyleContent cl2)"
      by (subst a', subst a2) (simp add: style_script_names_differ)
    moreover have "\<forall>name. assets' name \<noteq> assets name \<longrightarrow>
            name = jsonAssetName core
          \<or> name = scriptAssetName core (getFileHash core (injectScriptContent cl'))
          \<or> name = styleAssetName core (getFileHash core (injectStyleContent cl2))"
      by (subst a', subst a2) auto
    moreover have "assets' (scriptAssetName core (getFileHash core (injectScriptContent cl')))
           = Some (injectScriptContent cl')"
      by (subst a') simp
    ultimately show ?thesis using js css same_style False by auto
  qed
qed

lemma emit_style_ignores_custom:
  "emit_style core node (opts\<lparr>customNotificationHTML := x\<rparr>) fs assets cl
   = emit_style core node opts fs assets cl"
  by (simp add: emit_style_def)

lemma emit_frame:
  "emit core node opts version fs assets cl
   = map_sum id (\<lambda>(m, c). (assets ++ m, c)) (emit core node opts version fs Map.empty cl)"
  by (simp add: emit_def emit_style_def emit_script_def Let_def split: sum.splits)

lemma emit_reads_templates_only:
  assumes "fs1 (styleTemplatePath core) = fs2 (styleTemplatePath core)"
      and "fs1 (scriptTemplatePath core node) = fs2 (scriptTemplatePath core node)"
  shows "emit core node opts version fs1 assets cl = emit core node opts version fs2 assets cl"
proof -
  have style: "emit_style core node opts fs1 a c = emit_style core node opts fs2 a c" for a c
    using assms(1) by (simp add: emit_style_def readFileSync_def)
  have script: "emit_script core node opts version fs1 a c
                = emit_script core node opts version fs2 a c" for a c
    using assms(2) by (simp add: emit_script_def readFileSync_def)
  show ?thesis by (simp add: emit_def Let_def style script split: sum.splits)
qed

section \<open>Facts about the finalize hook\<close>

lemma htmlFilePath_resolveOptions:
  "htmlFilePath node compiler (resolveOptions compiler opts) = htmlFilePath node compiler opts"
  by (simp add: htmlFilePath_def resolveOptions_def)

lemma inject_file_missing:
  "fs path = None \<Longrightarrow> inject_file core node opts version cl path fs = Inl (ENOENT path)"
  by (simp add: inject_file_def accessSync_def)

text \<open>The hook's \<open>try\<close> block, by what it finds at the path.\<close>

lemma inject_file_cases:
  "inject_file core node opts version cl path fs
   = (case fs path of
        None \<Rightarrow> Inl (ENOENT path)
      | Some Directory \<Rightarrow> Inl (EISDIR path)
      | Some (File b (Some code) w) \<Rightarrow> Inl (SystemError code path)
      | Some (File b None (Some code)) \<Rightarrow> Inl (SystemError code path)
      | Some (File b None None) \<Rightarrow>
          Inr (fs(path \<mapsto> File
            (if truthy_bool (microApp opts)
             then injectPluginHTMLInline core (utf8 node b) version opts
                    (injectStyleContent cl) (injectScriptContent cl)
             else injectPluginHtml core (utf8 node b) version opts
                    (cssFileHash cl) (jsFileHash cl))
            None None)))"
  by (simp add: inject_file_def accessSync_def readFileSync_def writeFileSync_def
      split: option.splits fs_entry.splits)


text \<open>A write that fails is caught and logged like a missing file.\<close>

lemma afterEmit_write_fault:
  "files w (htmlFilePath node compiler opts) = Some (File b None (Some code)) \<Longrightarrow>
   afterEmit core node compiler opts version cl w
   = w\<lparr>console := console w
         @ [LogError (SystemError code (htmlFilePath node compiler opts)),
            LogMessage (notFoundMessage (htmlFilePath node compiler opts))]\<rparr>"
  by (simp add: afterEmit_def Let_def inject_file_cases)

lemma afterEmit_reads_entry_only:
  assumes "files w1 (htmlFilePath node compiler opts) = files w2 (htmlFilePath node compiler opts)"
  shows "\<exists>l. console (afterEmit core node compiler opts version cl w1) = console w1 @ l
           \<and> console (afterEmit core node compiler opts version cl w2) = console w2 @ l
           \<and> files (afterEmit core node compiler opts version cl w1) (htmlFilePath node compiler opts)
             = files (afterEmit core node compiler opts version cl w2) (htmlFilePath node compiler opts)"
  using assms
  by (auto simp: afterEmit_def Let_def inject_file_cases split: option.splits fs_entry.splits)

section \<open>Facts about the concrete instance\<close>

lemma example_version:
  "resolveVersion exampleCore exampleState exampleResolved = Inr ''1.2.3''"
  "resolveVersion exampleCore exampleLaterState exampleResolved = Inr ''1.2.3''"
  by (simp_all add: resolveVersion_def exampleResolved_def resolveOptions_def exampleOptions_def
      exampleCore_def exampleGetVersion_def)

lemma example_flags:
  "hiddenDefaultNotification exampleResolved = Some False"
  "hiddenDefaultNotification exampleMicro = Some False"
  "hiddenDefaultNotification exampleCustom = Some False"
  "silence exampleResolved = None"
  "silence exampleMicro = None"
  "silence exampleCustom = None"
  by (simp_all add: exampleResolved_def exampleMicro_def exampleCustom_def
      resolveOptions_def exampleOptions_def)

lemma example_emit_visible:
  "hiddenDefaultNotification opts = Some False \<Longrightarrow> silence opts = None \<Longrightarrow>
   emit exampleCore exampleNode opts ''1.2.3'' exampleTemplates Map.empty initial_closure
   = Inr (exampleEmitted, exampleClosure)"
  by (simp add: emit_def emit_style_def emit_script_def exampleCore_def exampleNode_def
      exampleTemplates_def initial_closure_def readFileSync_def styleTemplatePath_def
      scriptTemplatePath_def jsonAssetName_def styleAssetName_def scriptAssetName_def
      truthy_bool_def exampleHash_def hexDigit_def exampleJs_def exampleJSON_def
      exampleEmitted_def exampleClosure_def Let_def)

lemma example_emit:
  "emit exampleCore exampleNode exampleResolved ''1.2.3'' exampleTemplates Map.empty
     initial_closure
   = Inr (exampleEmitted, exampleClosure)"
  by (rule example_emit_visible [OF example_flags(1) example_flags(4)])

lemma example_path:
  "htmlFilePath exampleNode exampleCompiler exampleOptions = ''/app/dist/index.html''"
  "htmlFilePath exampleNode exampleCompiler exampleResolved = ''/app/dist/index.html''"
  by (simp_all add: htmlFilePath_def or_else_def exampleOptions_def exampleCompiler_def
      exampleResolved_def resolveOptions_def exampleNode_def)

lemma example_not_hidden: "\<not> truthy_bool (hiddenDefaultNotification exampleResolved)"
  by (simp add: exampleResolved_def resolveOptions_def exampleOptions_def truthy_bool_def)



section \<open>One run of the build\<close>


section \<open>The claims\<close>

text \<open>
  C1. When the emit hook returns, the script asset is registered under the name
  \<open>DIRECTORY_NAME/INJECT_SCRIPT_FILE_NAME.hash.js\<close> whose \<open>hash\<close> is \<open>getFileHash\<close> of exactly
  the content registered for it, and, unless the default notification is hidden, the
  stylesheet asset under \<open>DIRECTORY_NAME/INJECT_STYLE_FILE_NAME.hash.css\<close> in the same
  way; the hashes kept for the finalize hook are these same hashes. Every asset the hook
  registers or changes is the manifest or one of these two.
\<close>

theorem emit_hash_matches_content:
  assumes "emit core node opts version fs assets cl = Inr (assets', cl')"
  shows "jsFileHash cl' = getFileHash core (injectScriptContent cl')
       \<and> assets' (DIRECTORY_NAME core @ ''/'' @ INJECT_SCRIPT_FILE_NAME core @ ''.''
                   @ getFileHash core (injectScriptContent cl') @ ''.js'')
           = Some (injectScriptContent cl')
       \<and> (\<not> truthy_bool (hiddenDefaultNotification opts) \<longrightarrow>
            cssFileHash cl' = getFileHash core (injectStyleContent cl')
          \<and> assets' (DIRECTORY_NAME core @ ''/'' @ INJECT_STYLE_FILE_NAME core @ ''.''
                      @ getFileHash core (injectStyleContent cl') @ ''.css'')
              = Some (injectStyleContent cl'))
       \<and> (\<forall>name. assets' name \<noteq> assets name \<longrightarrow>
            name = DIRECTORY_NAME core @ ''/'' @ JSON_FILE_NAME core @ ''.json''
          \<or> name = DIRECTORY_NAME core @ ''/'' @ INJECT_SCRIPT_FILE_NAME core @ ''.''
                   @ getFileHash core (injectScriptContent cl') @ ''.js''
          \<or> (\<not> truthy_bool (hiddenDefaultNotification opts)
             \<and> name = DIRECTORY_NAME core @ ''/'' @ INJECT_STYLE_FILE_NAME core @ ''.''
                      @ getFileHash core (injectStyleContent cl') @ ''.css''))"
  using emit_Inr_facts [OF assms]
  unfolding styleAssetName_def scriptAssetName_def jsonAssetName_def .

theorem emit_hash_matches_content_witness:
  "emit exampleCore exampleNode exampleResolved ''1.2.3'' exampleTemplates Map.empty
     initial_closure = Inr (exampleEmitted, exampleClosure)
   \<and> injectScriptContent exampleClosure = exampleJs ''poll'' ''1.2.3'' exampleResolved
   \<and> getFileHash exampleCore (injectScriptContent exampleClosure) = ''79''
   \<and> jsFileHash exampleClosure = ''79''
   \<and> exampleEmitted ''pluginWebUpdateNotice/webUpdateNoticeInjectScript.79.js''
      = Some (injectScriptContent exampleClosure)
   \<and> \<not> truthy_bool (hiddenDefaultNotification exampleResolved)
   \<and> injectStyleContent exampleClosure = ''.a{color:red}''
   \<and> getFileHash exampleCore (injectStyleContent exampleClosure) = ''1b''
   \<and> cssFileHash exampleClosure = ''1b''
   \<and> exampleEmitted ''pluginWebUpdateNotice/webUpdateNoticeInjectStyle.1b.css''
      = Some (injectStyleContent exampleClosure)
   \<and> exampleEmitted ''pluginWebUpdateNotice/web_version_by_plugin.json''
      \<noteq> Map.empty ''pluginWebUpdateNotice/web_version_by_plugin.json''"
proof -
  have js: "injectScriptContent exampleClosure = exampleJs ''poll'' ''1.2.3'' exampleResolved"
    by (simp add: exampleClosure_def exampleJs_def)
  have css: "injectStyleContent exampleClosure = ''.a{color:red}''"
    by (simp add: exampleClosure_def)
  have hj: "getFileHash exampleCore (injectScriptContent exampleClosure) = ''79''"
    by code_simp
  have hc: "getFileHash exampleCore (injectStyleContent exampleClosure) = ''1b''"
    by code_simp
  have names:
    "DIRECTORY_NAME exampleCore @ ''/'' @ INJECT_SCRIPT_FILE_NAME exampleCore @ ''.'' @ ''79'' @ ''.js''
     = ''pluginWebUpdateNotice/webUpdateNoticeInjectScript.79.js''"
    "DIRECTORY_NAME exampleCore @ ''/'' @ INJECT_STYLE_FILE_NAME exampleCore @ ''.'' @ ''1b'' @ ''.css''
     = ''pluginWebUpdateNotice/webUpdateNoticeInjectStyle.1b.css''"
    by (simp_all add: exampleCore_def)
  have manifest: "exampleEmitted ''pluginWebUpdateNotice/web_version_by_plugin.json''
      \<noteq> Map.empty ''pluginWebUpdateNotice/web_version_by_plugin.json''"
    by (simp add: exampleEmitted_def)
  note t = emit_hash_matches_content [OF example_emit, unfolded hj hc names]
  from t have a1: "jsFileHash exampleClosure = ''79''" by (rule conjunct1)
  from t have a2: "exampleEmitted ''pluginWebUpdateNotice/webUpdateNoticeInjectScript.79.js''
      = Some (injectScriptContent exampleClosure)"
    by (rule conjunct2 [THEN conjunct1])
  from t [THEN conjunct2, THEN conjunct2, THEN conjunct1] example_not_hidden
  have a3: "cssFileHash exampleClosure = ''1b''
      \<and> exampleEmitted ''pluginWebUpdateNotice/webUpdateNoticeInjectStyle.1b.css''
        = Some (injectStyleContent exampleClosure)"
    by (rule mp)
  from example_emit js hj a1 a2 example_not_hidden css hc a3 [THEN conjunct1]
    a3 [THEN conjunct2] manifest
  show ?thesis by (intro conjI)
qed

text \<open>
  C2. With the default notification not hidden, one anchor element is to be inserted,
  right before the closing \<open></body>\<close> tag. On the document
  \<open><html><head></head><body></body></html>\<close> with the version \<open>1</body>\<close> it is not: the
  second \<open>replace\<close> searches the text that the first one has produced, finds its first
  \<open></body>\<close> inside the version script just inserted into the head, and puts the anchor
  there; the document's own \<open></body>\<close> gets none. In inline mode a script body that holds
  \<open></body>\<close> draws the anchor into the script in the same way.
\<close>

theorem anchor_lands_in_inserted_head_text:
  \<open>injectPluginHtml exampleCore exampleHtml ''1</body>'' exampleResolved ''1b'' ''79''
   = ''<html><head>\<newline>''
       @ ''    <link rel="stylesheet" href="/pluginWebUpdateNotice/webUpdateNoticeInjectStyle.1''
       @ ''b.css">\<newline>''
       @ ''    <script src="/pluginWebUpdateNotice/webUpdateNoticeInjectScript.79.js"></script>''
       @ ''\<newline>''
       @ ''    <script>''
       @ ''window.pluginWebUpdateNotice_version = '1<div class="plugin-web-update-notice-anchor''
       @ ''"></div></body>';</script></head><body></body></html>''
   \<and> injectPluginHTMLInline exampleCore exampleHtml ''1.2.3'' exampleMicro ''.a{color:red}''
       ''var s="</body>";poll("1.2.3");''
     = ''<html><head>\<newline>''
       @ ''        <style>.a{color:red}</style>\<newline>''
       @ ''        <script>var s="<div class="plugin-web-update-notice-anchor"></div></body>''
       @ ''";poll("1.2.3");</script>\<newline>''
       @ ''        <script>window.pluginWebUpdateNotice_version = '1.2.3';</script></head>''
       @ ''<body></body></html>''\<close>
  by code_simp

text \<open>
  C3. Inline mode is to embed the style and script bodies literally, byte for byte what
  the emit hook registers under the hashed names. It does not where a body holds a
  replacement pattern: the bodies are part of the replacement text of \<open>replace\<close>, which
  expands \<open>$$\<close> to \<open>$\<close> and \<open>$&\<close> to the matched \<open><head>\<close>. The style body \<open>a$$b\<close> is embedded
  as \<open>a$b\<close> and the script body \<open>f($&)\<close> as \<open>f(<head>)\<close>; and a build in inline mode with the
  custom version \<open>1.0$&\<close>, which the script generator puts into the script, registers the
  script \<open>poll("1.0$&");\<close> and embeds \<open>poll("1.0<head>");\<close>.
\<close>

theorem inline_injection_expands_dollar_in_bodies:
  \<open>injectPluginHTMLInline exampleCore exampleHtml ''1.2.3'' exampleMicro ''a$$b'' ''f($&)''
   = ''<html><head>\<newline>''
       @ ''        <style>a$b</style>\<newline>''
       @ ''        <script>f(<head>)</script>\<newline>''
       @ ''        <script>window.pluginWebUpdateNotice_version = '1.2.3';</script></head>''
       @ ''<body><div class="plugin-web-update-notice-anchor"></div></body></html>''
   \<and> buildScript
       (build exampleCore exampleNode exampleCompiler exampleState examplePatternOptions
          exampleTemplates Map.empty exampleWorld)
     = Some (Some ''poll("1.0$&");'',
             Some (File
               (''<html><head>\<newline>''
       @ ''        <style>.a{color:red}</style>\<newline>''
       @ ''        <script>poll("1.0<head>");</script>\<newline>''
       @ ''        <script>window.pluginWebUpdateNotice_version = '1.0<head>';</script></head>''
       @ ''<body><div class="plugin-web-update-notice-anchor"></div></body></html>'')
               None None))\<close>
  by code_simp

text \<open>
  C4. Linked injection is to insert, right after \<open><head>\<close>, the stylesheet link, the
  script reference and an inline script that assigns the version to
  \<open>window.pluginWebUpdateNotice_version\<close>. For the version \<open>2.0$\<close> it does not: the \<open>$\<close> that
  ends the version and the quote the template puts after it form the pattern \<open>$'\<close>,
  which \<open>replace\<close> expands to the rest of the document. The inline script holds that text
  where the version should close, and the anchor lands inside the script.
\<close>

theorem linked_injection_expands_dollar_in_version:
  \<open>injectPluginHtml exampleCore exampleHtml ''2.0$'' exampleResolved ''1b'' ''79''
   = ''<html><head>\<newline>''
       @ ''    <link rel="stylesheet" href="/pluginWebUpdateNotice/webUpdateNoticeInjectStyle.1b.css">\<newline>''
       @ ''    <script src="/pluginWebUpdateNotice/webUpdateNoticeInjectScript.79.js"></script>\<newline>''
       @ ''    <script>window.pluginWebUpdateNotice_version = '2.0</head><body>''
       @ ''<div class="plugin-web-update-notice-anchor"></div></body></html>;</script></head><body></body>''
       @ ''</html>''\<close>
  by code_simp

text \<open>
  C5. The resolved version is to appear verbatim in the assignment to
  \<open>window.pluginWebUpdateNotice_version\<close>. A build with the custom version \<open>1.0$&\<close> leaves
  an entry document that assigns \<open>1.0<head>\<close> instead: \<open>replace\<close> expands the pattern \<open>$&\<close>
  of its replacement text to the matched token.
\<close>

theorem build_expands_dollar_in_custom_version:
  \<open>buildOutcome
     (build exampleCore exampleNode exampleCompiler exampleState
        (exampleOptions\<lparr>customVersion := Some ''1.0$&''\<rparr>) exampleTemplates Map.empty exampleWorld)
   = Some (Some (File
       (''<html><head>\<newline>''
       @ ''    <link rel="stylesheet" href="/pluginWebUpdateNotice/webUpdateNoticeInjectStyle.1b.css">\<newline>''
       @ ''    <script src="/pluginWebUpdateNotice/webUpdateNoticeInjectScript.60.js"></script>\<newline>''
       @ ''    <script>window.pluginWebUpdateNotice_version = '1.0<head>';</script></head><body>''
       @ ''<div class="plugin-web-update-notice-anchor"></div></body></html>'') None None), [])\<close>
  by code_simp




text \<open>
  C7. If the entry HTML file is absent when the finalize hook runs, the hook returns
  normally and the build ends with a result, not with an exception; the console receives
  the caught \<open>ENOENT\<close> error and a message that contains the resolved path; no file is
  written, and the assets are those the emit hook registered.
\<close>

theorem missing_entry_html_is_logged:
  assumes "files w (htmlFilePath node compiler opts0) = None"
      and "resolveVersion core state (resolveOptions compiler opts0) = Inr version"
      and "emit core node (resolveOptions compiler opts0) version fs assets initial_closure
           = Inr (assets1, cl)"
  shows "afterEmit core node compiler (resolveOptions compiler opts0) version cl w
         = w\<lparr>console := console w
               @ [LogError (ENOENT (htmlFilePath node compiler opts0)),
                  LogMessage (notFoundMessage (htmlFilePath node compiler opts0))]\<rparr>
       \<and> files (afterEmit core node compiler (resolveOptions compiler opts0) version cl w)
           = files w
       \<and> sublist (htmlFilePath node compiler opts0)
           (notFoundMessage (htmlFilePath node compiler opts0))
       \<and> build core node compiler state opts0 fs assets w
           = Inr (assets1, cl,
                  w\<lparr>console := console w
                     @ [LogError (ENOENT (htmlFilePath node compiler opts0)),
                        LogMessage (notFoundMessage (htmlFilePath node compiler opts0))]\<rparr>)"
proof -
  let ?path = "htmlFilePath node compiler opts0"
  have a: "afterEmit core node compiler (resolveOptions compiler opts0) version cl w
         = w\<lparr>console := console w @ [LogError (ENOENT ?path), LogMessage (notFoundMessage ?path)]\<rparr>"
    by (simp add: afterEmit_def Let_def htmlFilePath_resolveOptions inject_file_missing [where fs = "files w", OF assms(1)])
  have "notFoundMessage ?path
        = (pluginName @ '' failed to inject the plugin into the HTML file. index.html''
           @ [CHR 0xEF, CHR 0xBC, CHR 0x88]) @ ?path @ ([CHR 0xEF, CHR 0xBC, CHR 0x89] @ '' not found.'')"
    by (simp add: notFoundMessage_def)
  then have s: "sublist ?path (notFoundMessage ?path)"
    by (metis sublist_appendI)
  have b: "build core node compiler state opts0 fs assets w
           = Inr (assets1, cl, afterEmit core node compiler (resolveOptions compiler opts0) version cl w)"
    by (simp add: build_def Let_def assms(2,3))
  show ?thesis using a s b by simp
qed

theorem missing_entry_html_is_logged_witness:
  "files exampleNoEntry (htmlFilePath exampleNode exampleCompiler exampleOptions) = None
   \<and> build exampleCore exampleNode exampleCompiler exampleState exampleOptions exampleTemplates Map.empty
        exampleNoEntry
      = Inr (exampleEmitted, exampleClosure,
             exampleNoEntry\<lparr>console :=
               [LogError (ENOENT ''/app/dist/index.html''),
                LogMessage (notFoundMessage ''/app/dist/index.html'')]\<rparr>)"
proof -
  have none: "files exampleNoEntry (htmlFilePath exampleNode exampleCompiler exampleOptions) = None"
    by (simp add: example_path exampleNoEntry_def)
  have v: "resolveVersion exampleCore exampleState (resolveOptions exampleCompiler exampleOptions) = Inr ''1.2.3''"
    using example_version(1) by (simp add: exampleResolved_def)
  have e: "emit exampleCore exampleNode (resolveOptions exampleCompiler exampleOptions) ''1.2.3''
             exampleTemplates Map.empty initial_closure = Inr (exampleEmitted, exampleClosure)"
    using example_emit by (simp add: exampleResolved_def)
  have "console exampleNoEntry = []" by (simp add: exampleNoEntry_def)
  with missing_entry_html_is_logged [OF none v e] none show ?thesis
    by (simp add: example_path)
qed

text \<open>
  C8. Both injection modes change the document by pure insertion at two places only: right
  after the first occurrence of the literal \<open><head>\<close>, and right before the first occurrence
  of the literal \<open></body>\<close> in the text the second substitution is applied to. A missing
  marker means no insertion there. Every character of the input is kept, in order: the
  input is a subsequence of the output, and outside the two insertion points the output
  is the input. No parsing takes place.
\<close>

theorem injection_is_two_insertions:
  "(\<exists>X Y. injectPluginHtml core html version opts css_hash js_hash
            = insertBeforeFirst ''</body>'' Y (insertAfterFirst ''<head>'' X html)
          \<and> subseq html (injectPluginHtml core html version opts css_hash js_hash))
   \<and> (\<exists>X Y. injectPluginHTMLInline core html version opts style_content script_content
            = insertBeforeFirst ''</body>'' Y (insertAfterFirst ''<head>'' X html)
          \<and> subseq html (injectPluginHTMLInline core html version opts style_content script_content))"
proof
  let ?res = "replace html ''<head>'' (linkedHead core version opts css_hash js_hash)"
  have "\<exists>X. ?res = insertAfterFirst ''<head>'' X html"
    using replace_insert_after [OF head_token] linkedHead_head by metis
  moreover have "injectPluginHtml core html version opts css_hash js_hash = ?res
      \<or> (\<exists>Y. injectPluginHtml core html version opts css_hash js_hash
              = insertBeforeFirst ''</body>'' Y ?res)"
    using replace_insert_before [OF body_token, of ?res "anchorHtml core"]
    by (auto simp: injectPluginHtml_def anchorBody_def Let_def)
  ultimately show "\<exists>X Y. injectPluginHtml core html version opts css_hash js_hash
            = insertBeforeFirst ''</body>'' Y (insertAfterFirst ''<head>'' X html)
          \<and> subseq html (injectPluginHtml core html version opts css_hash js_hash)"
    by (rule two_insertions)
next
  let ?res = "replace html ''<head>'' (inlineHead version opts style_content script_content)"
  have "\<exists>X. ?res = insertAfterFirst ''<head>'' X html"
    using replace_insert_after [OF head_token] inlineHead_head by metis
  moreover have "injectPluginHTMLInline core html version opts style_content script_content = ?res
      \<or> (\<exists>Y. injectPluginHTMLInline core html version opts style_content script_content
              = insertBeforeFirst ''</body>'' Y ?res)"
    using replace_insert_before [OF body_token, of ?res "anchorHtml core"]
    by (auto simp: injectPluginHTMLInline_def anchorBody_def Let_def)
  ultimately show "\<exists>X Y. injectPluginHTMLInline core html version opts style_content script_content
            = insertBeforeFirst ''</body>'' Y (insertAfterFirst ''<head>'' X html)
          \<and> subseq html (injectPluginHTMLInline core html version opts style_content script_content)"
    by (rule two_insertions)
qed




text \<open>
  C10. With \<open>customNotificationHTML\<close> configured (a non-empty string) and
  \<open>hiddenDefaultNotification\<close> not set, the emit hook still reads the stylesheet, hashes it
  and registers it under its hashed name: the style step does not look at
  \<open>customNotificationHTML\<close> at all. Linked injection then builds no \<open><link>\<close>: its head text
  has an empty line in the link's place, and its output is the same whatever the
  stylesheet hash is, so nothing in it refers to the emitted stylesheet.
\<close>

theorem custom_notification_style_emitted_but_unlinked:
  assumes "emit core node opts version fs assets cl = Inr (assets', cl')"
      and "truthy_string (customNotificationHTML opts)"
      and "\<not> truthy_bool (hiddenDefaultNotification opts)"
  shows "readFileSync node fs (styleTemplatePath core) = Inr (injectStyleContent cl')
       \<and> cssFileHash cl' = getFileHash core (injectStyleContent cl')
       \<and> assets' (styleAssetName core (cssFileHash cl')) = Some (injectStyleContent cl')
       \<and> emit_style core node (opts\<lparr>customNotificationHTML := None\<rparr>) fs assets cl
           = emit_style core node opts fs assets cl
       \<and> cssLinkHtml core opts (cssFileHash cl') = []
       \<and> linkedHead core version opts (cssFileHash cl') (jsFileHash cl')
           = ''<head>\<newline>    \<newline>    '' @ scriptSrcHtml core opts (jsFileHash cl')
             @ ''\<newline>    '' @ versionScript version
       \<and> injectPluginHtml core html version opts (cssFileHash cl') (jsFileHash cl')
           = injectPluginHtml core html version opts other_hash (jsFileHash cl')"
proof -
  from emit_Inr [OF assms(1)] obtain assets2 cl2 where
    style: "emit_style core node opts fs
             (assets(jsonAssetName core \<mapsto> generateJSONFileContent core version (silence opts))) cl
             = Inr (assets2, cl2)"
    and script: "emit_script core node opts version fs assets2 cl2 = Inr (assets', cl')"
    by blast
  from emit_script_Inr [OF script]
  have cl': "cl' = cl2\<lparr>injectScriptContent := injectScriptContent cl',
                    jsFileHash := getFileHash core (injectScriptContent cl')\<rparr>"
    by blast
  have same: "injectStyleContent cl' = injectStyleContent cl2"
    by (subst cl') simp
  from emit_style_Inr [OF style] assms(3)
  have "readFileSync node fs (styleTemplatePath core) = Inr (injectStyleContent cl2)" by simp
  then have r: "readFileSync node fs (styleTemplatePath core) = Inr (injectStyleContent cl')"
    by (simp add: same)
  from emit_Inr_facts [OF assms(1)] assms(3)
  have h: "cssFileHash cl' = getFileHash core (injectStyleContent cl')"
    and a: "assets' (styleAssetName core (getFileHash core (injectStyleContent cl')))
              = Some (injectStyleContent cl')"
    by blast+
  have l: "cssLinkHtml core opts h' = []" for h'
    using assms(2) by (simp add: cssLinkHtml_def)
  have lh: "linkedHead core version opts h' j = ''<head>\<newline>    \<newline>    '' @ scriptSrcHtml core opts j
             @ ''\<newline>    '' @ versionScript version" for h' j
    by (simp add: linkedHead_def l)
  have i: "injectPluginHtml core html version opts h1 j = injectPluginHtml core html version opts h2 j"
    for h1 h2 j
    by (simp add: injectPluginHtml_def Let_def lh)
  show ?thesis using r h a l lh i emit_style_ignores_custom by (simp add: h)
qed

theorem custom_notification_style_emitted_but_unlinked_witness:
  "emit exampleCore exampleNode exampleCustom ''1.2.3'' exampleTemplates Map.empty
     initial_closure = Inr (exampleEmitted, exampleClosure)
   \<and> truthy_string (customNotificationHTML exampleCustom)
   \<and> \<not> truthy_bool (hiddenDefaultNotification exampleCustom)
   \<and> readFileSync exampleNode exampleTemplates (styleTemplatePath exampleCore)
     = Inr (injectStyleContent exampleClosure)
   \<and> cssFileHash exampleClosure = getFileHash exampleCore (injectStyleContent exampleClosure)
   \<and> exampleEmitted (styleAssetName exampleCore (cssFileHash exampleClosure))
     = Some (injectStyleContent exampleClosure)
   \<and> cssLinkHtml exampleCore exampleCustom (cssFileHash exampleClosure) = []
   \<and> injectPluginHtml exampleCore exampleHtml ''1.2.3'' exampleCustom
       (cssFileHash exampleClosure) (jsFileHash exampleClosure)
     = injectPluginHtml exampleCore exampleHtml ''1.2.3'' exampleCustom
       ''0000'' (jsFileHash exampleClosure)"
proof -
  have e: "emit exampleCore exampleNode exampleCustom ''1.2.3'' exampleTemplates Map.empty
     initial_closure = Inr (exampleEmitted, exampleClosure)"
    by (rule example_emit_visible [OF example_flags(3) example_flags(6)])
  have c: "truthy_string (customNotificationHTML exampleCustom)"
    by (simp add: exampleCustom_def truthy_string_def)
  have n: "\<not> truthy_bool (hiddenDefaultNotification exampleCustom)"
    by (simp add: example_flags truthy_bool_def)
  note t = custom_notification_style_emitted_but_unlinked [OF e c n,
      where html = exampleHtml and other_hash = "''0000''"]
  note t1 = t [THEN conjunct1]
  note t2 = t [THEN conjunct2, THEN conjunct1]
  note t3 = t [THEN conjunct2, THEN conjunct2, THEN conjunct1]
  note t5 = t [THEN conjunct2, THEN conjunct2, THEN conjunct2, THEN conjunct2, THEN conjunct1]
  note t7 = t [THEN conjunct2, THEN conjunct2, THEN conjunct2, THEN conjunct2, THEN conjunct2,
      THEN conjunct2]
  from e c n t1 t2 t3 t5 t7 show ?thesis by (intro conjI)
qed

end
